theory Spec2Isabelle
  imports Main "HOL-Library.Sublist"
begin

section \<open>Values shared by the server modules\<close>

text \<open>
  Object ids and dates are natural numbers (a date is a number of milliseconds). Strings are
  taken as ASCII text, so that the length of a string is the number of its characters.
  Every failure of a request is a value of \<open>error\<close>:
  \<^item> \<open>AppError message statusCode\<close> is \<^verbatim>\<open>next(new AppError(message, statusCode))\<close>;
  \<^item> \<open>Response statusCode message\<close> is a middleware answering by itself with
    \<^verbatim>\<open>res.status(statusCode).json({ success: false, error: message })\<close>;
  \<^item> \<open>ValidationFailed\<close> is the answer of \<^verbatim>\<open>validateRequest\<close> (status 400);
  \<^item> \<open>ValidationError\<close> is the error Mongoose throws when a schema validator fails;
  \<^item> \<open>TypeError\<close> is the JavaScript exception of that name.
\<close>

type_synonym objectId = nat
type_synonym date = nat

datatype error =
    AppError string nat
  | Response nat string
  | ValidationFailed
  | ValidationError
  | TypeError

section \<open>utils/validation.js\<close>

definition validPriorities :: "string list" where
  "validPriorities = [''low'', ''medium'', ''high'', ''critical'']"

definition validatePriority :: "string \<Rightarrow> bool" where
  "validatePriority priority = (priority \<in> set validPriorities)"

definition validStatuses :: "string list" where
  "validStatuses = [''open'', ''in-progress'', ''testing'', ''resolved'', ''closed'']"

definition validateStatus :: "string \<Rightarrow> bool" where
  "validateStatus status = (status \<in> set validStatuses)"

text \<open>
  \<^verbatim>\<open>allowedTransitions\<close> is an object literal, so reading \<^verbatim>\<open>allowedTransitions[key]\<close> finds
  the five own properties and, for any other key, whatever the object inherits from
  \<^verbatim>\<open>Object.prototype\<close>. The names below are the properties of \<^verbatim>\<open>Object.prototype\<close>
  in Node.js; each of them holds a function (\<^verbatim>\<open>__proto__\<close> holds the prototype object),
  and none of these values has a property \<^verbatim>\<open>includes\<close>.
\<close>

definition allowedTransitions :: "(string \<times> string list) list" where
  "allowedTransitions =
    [(''open'', [''in-progress'', ''closed'']),
     (''in-progress'', [''testing'', ''open'', ''closed'']),
     (''testing'', [''resolved'', ''in-progress'', ''open'']),
     (''resolved'', [''closed'', ''open'']),
     (''closed'', [''open''])]"

definition object_prototype_keys :: "string list" where
  "object_prototype_keys =
    [''constructor'', ''__defineGetter__'', ''__defineSetter__'', ''hasOwnProperty'',
     ''__lookupGetter__'', ''__lookupSetter__'', ''isPrototypeOf'', ''propertyIsEnumerable'',
     ''toString'', ''valueOf'', ''__proto__'', ''toLocaleString'']"

datatype property_value = Undefined | StringArray "string list" | Inherited

definition get_property :: "(string \<times> string list) list \<Rightarrow> string \<Rightarrow> property_value" where
  "get_property obj key =
    (case map_of obj key of
       Some xs \<Rightarrow> StringArray xs
     | None \<Rightarrow> if key \<in> set object_prototype_keys then Inherited else Undefined)"

text \<open>
  \<^verbatim>\<open>return allowedTransitions[currentStatus]?.includes(newStatus) || false;\<close>
  The optional chain stops at an undefined property and the result is then \<^verbatim>\<open>false\<close>; on an
  array, \<^verbatim>\<open>includes\<close> compares strings by equality; on an inherited value the chain goes on
  and calls \<^verbatim>\<open>includes\<close>, which is not a function there.
\<close>

definition validateStatusTransition :: "string \<Rightarrow> string \<Rightarrow> error + bool" where
  "validateStatusTransition currentStatus newStatus =
    (case get_property allowedTransitions currentStatus of
       Undefined \<Rightarrow> Inr False
     | StringArray xs \<Rightarrow> Inr (newStatus \<in> set xs)
     | Inherited \<Rightarrow> Inl TypeError)"

text \<open>The transition table as the specification lists it, edge by edge.\<close>

definition listed_edges :: "(string \<times> string) list" where
  "listed_edges =
    [(''open'', ''in-progress''), (''open'', ''closed''),
     (''in-progress'', ''testing''), (''in-progress'', ''open''), (''in-progress'', ''closed''),
     (''testing'', ''resolved''), (''testing'', ''in-progress''), (''testing'', ''open''),
     (''resolved'', ''closed''), (''resolved'', ''open''),
     (''closed'', ''open'')]"

section \<open>models/User.js and models/Bug.js\<close>

record user =
  uid :: objectId
  username :: string
  role :: string
  isActive :: bool

text \<open>
  Of the bug schema the model keeps the paths that a handler, a hook or a check below reads or
  writes. The paths left out (severity, category, environment, expectedResult, actualResult,
  tags, attachments, estimatedTime, actualTime, dueDate) are stored and returned as they are
  given and take part in no decision. A step of \<^verbatim>\<open>stepsToReproduce\<close> is the pair of its
  text and its order.
\<close>

record bug_comment =
  author :: objectId
  content :: string
  commentCreatedAt :: date

record bug =
  title :: string
  description :: string
  status :: string
  priority :: string
  assignee :: "objectId option"
  reporter :: objectId
  stepsToReproduce :: "(string \<times> int) list"
  comments :: "bug_comment list"
  watchers :: "objectId list"
  resolvedAt :: "date option"
  closedAt :: "date option"
  createdAt :: date
  updatedAt :: date

type_synonym bug_store = "objectId \<rightharpoonup> bug"
type_synonym user_store = "objectId \<rightharpoonup> user"

text \<open>\<^verbatim>\<open>String.prototype.trim\<close>, on ASCII text.\<close>

definition is_whitespace :: "char \<Rightarrow> bool" where
  "is_whitespace c =
    (c \<in> set [CHR '' '', CHR 0x09, CHR 0x0A, CHR 0x0B, CHR 0x0C, CHR 0x0D])"

definition js_trim :: "string \<Rightarrow> string" where
  "js_trim s = rev (dropWhile is_whitespace (rev (dropWhile is_whitespace s)))"

text \<open>
  The validators of the schema: \<^verbatim>\<open>required\<close> rejects the empty string, \<^verbatim>\<open>maxlength\<close>
  bounds the length, \<^verbatim>\<open>enum\<close> asks for one of the listed names.
\<close>

definition valid_title :: "string \<Rightarrow> bool" where
  "valid_title t = (t \<noteq> [] \<and> length t \<le> 200)"

definition valid_description :: "string \<Rightarrow> bool" where
  "valid_description d = (d \<noteq> [] \<and> length d \<le> 2000)"

definition valid_step :: "string \<times> int \<Rightarrow> bool" where
  "valid_step st = (fst st \<noteq> [])"

definition valid_comment :: "bug_comment \<Rightarrow> bool" where
  "valid_comment c = (content c \<noteq> [] \<and> length (content c) \<le> 1000)"

definition validate :: "bug \<Rightarrow> bool" where
  "validate doc =
    (valid_title (title doc) \<and> valid_description (description doc) \<and>
     status doc \<in> set validStatuses \<and> priority doc \<in> set validPriorities \<and>
     list_all valid_step (stepsToReproduce doc) \<and> list_all valid_comment (comments doc))"

text \<open>
  \<^verbatim>\<open>bugSchema.pre('save', ...)\<close>. The flag is \<^verbatim>\<open>this.isModified('status')\<close>; the sort
  of the steps by their order is stable.
\<close>

definition pre_save :: "bool \<Rightarrow> date \<Rightarrow> bug \<Rightarrow> bug" where
  "pre_save statusModified now this =
    (let this1 =
       (if statusModified \<and> status this = ''resolved'' \<and> resolvedAt this = None
        then this\<lparr>resolvedAt := Some now\<rparr> else this);
         this2 =
       (if statusModified \<and> status this1 = ''closed'' \<and> closedAt this1 = None
        then this1\<lparr>closedAt := Some now\<rparr> else this1)
     in this2\<lparr>stepsToReproduce := sort_key snd (stepsToReproduce this2)\<rparr>)"

text \<open>
  \<^verbatim>\<open>doc.save()\<close> of a document loaded from the store: the validators run first, then the
  hook, and the write sets \<^verbatim>\<open>updatedAt\<close> (\<^verbatim>\<open>timestamps: true\<close>).
\<close>

definition save :: "bug_store \<Rightarrow> objectId \<Rightarrow> bool \<Rightarrow> date \<Rightarrow> bug \<Rightarrow> error + bug \<times> bug_store" where
  "save store bugId statusModified now doc =
    (if \<not> validate doc then Inl ValidationError
     else let doc' = (pre_save statusModified now doc)\<lparr>updatedAt := now\<rparr>
          in Inr (doc', store(bugId \<mapsto> doc')))"

text \<open>\<^verbatim>\<open>bugSchema.methods.updateStatus\<close>: an assignment marks the path modified when the value changes.\<close>

definition updateStatus :: "bug_store \<Rightarrow> objectId \<Rightarrow> date \<Rightarrow> bug \<Rightarrow> string \<Rightarrow> error + bug \<times> bug_store" where
  "updateStatus store bugId now this newStatus =
    save store bugId (newStatus \<noteq> status this) now (this\<lparr>status := newStatus\<rparr>)"

text \<open>
  \<^verbatim>\<open>Bug.create(fields)\<close>: a missing title or description fails \<^verbatim>\<open>required\<close> like an empty
  one, the title is trimmed by its setter, and the schema's defaults fill the rest: status
  \<^verbatim>\<open>'open'\<close>, priority \<^verbatim>\<open>'medium'\<close>, no assignee, no comments, no watchers. With the status
  at its default the hook's two status branches do nothing, whatever the flag.
\<close>

record bug_fields =
  new_title :: "string option"
  new_description :: "string option"
  new_priority :: "string option"
  new_stepsToReproduce :: "(string \<times> int) list option"
  new_reporter :: objectId

definition Bug_create :: "bug_store \<Rightarrow> objectId \<Rightarrow> date \<Rightarrow> bug_fields \<Rightarrow> error + bug \<times> bug_store" where
  "Bug_create store newId now given =
    (let doc = \<lparr>title = (case new_title given of None \<Rightarrow> [] | Some t \<Rightarrow> js_trim t),
                description = (case new_description given of None \<Rightarrow> [] | Some d \<Rightarrow> d),
                status = ''open'',
                priority = (case new_priority given of None \<Rightarrow> ''medium'' | Some p \<Rightarrow> p),
                assignee = None,
                reporter = new_reporter given,
                stepsToReproduce =
                  (case new_stepsToReproduce given of None \<Rightarrow> [] | Some ss \<Rightarrow> ss),
                comments = [],
                watchers = [],
                resolvedAt = None,
                closedAt = None,
                createdAt = now,
                updatedAt = now\<rparr>
     in save store newId False now doc)"

text \<open>
  \<^verbatim>\<open>Bug.findByIdAndUpdate(id, updates, options)\<close>. The update document is whatever the
  caller hands over: keys that are paths of the schema, and possibly the operator \<^verbatim>\<open>$set\<close>
  with paths of its own (the other operators and dotted paths are not modelled). Mongoose
  moves the top-level paths into \<^verbatim>\<open>$set\<close>, over the entries \<^verbatim>\<open>$set\<close> has for the same
  paths, and, the schema having \<^verbatim>\<open>timestamps: true\<close>, takes \<^verbatim>\<open>createdAt\<close> out of the update.
  With \<^verbatim>\<open>runValidators\<close> the validators of the paths to set run before anything is written.
  The write sets these paths (the title through its setter) and \<^verbatim>\<open>updatedAt\<close>; no
  \<^verbatim>\<open>save\<close> hook runs. The result is the updated document (\<^verbatim>\<open>new: true\<close>), or nothing when
  no document has the id.
\<close>

record bug_paths =
  upd_title :: "string option"
  upd_description :: "string option"
  upd_status :: "string option"
  upd_priority :: "string option"
  upd_assignee :: "objectId option"
  upd_reporter :: "objectId option"
  upd_createdAt :: "date option"
  upd_comments :: "bug_comment list option"
  upd_watchers :: "objectId list option"
  upd_resolvedAt :: "date option"
  upd_closedAt :: "date option"

record bug_updates = bug_paths +
  upd_set :: "bug_paths option"

definition no_paths :: bug_paths where
  "no_paths =
    \<lparr>upd_title = None, upd_description = None, upd_status = None, upd_priority = None,
     upd_assignee = None, upd_reporter = None, upd_createdAt = None, upd_comments = None,
     upd_watchers = None, upd_resolvedAt = None, upd_closedAt = None\<rparr>"

definition no_updates :: bug_updates where
  "no_updates =
    \<lparr>upd_title = None, upd_description = None, upd_status = None, upd_priority = None,
     upd_assignee = None, upd_reporter = None, upd_createdAt = None, upd_comments = None,
     upd_watchers = None, upd_resolvedAt = None, upd_closedAt = None, upd_set = None\<rparr>"

definition first_present :: "'a option \<Rightarrow> 'a option \<Rightarrow> 'a option" where
  "first_present outer nested = (case outer of Some v \<Rightarrow> Some v | None \<Rightarrow> nested)"

definition cast_update :: "bug_updates \<Rightarrow> bug_paths" where
  "cast_update u =
    (let s = (case upd_set u of None \<Rightarrow> no_paths | Some given \<Rightarrow> given) in
     \<lparr>upd_title = first_present (upd_title u) (upd_title s),
      upd_description = first_present (upd_description u) (upd_description s),
      upd_status = first_present (upd_status u) (upd_status s),
      upd_priority = first_present (upd_priority u) (upd_priority s),
      upd_assignee = first_present (upd_assignee u) (upd_assignee s),
      upd_reporter = first_present (upd_reporter u) (upd_reporter s),
      upd_createdAt = None,
      upd_comments = first_present (upd_comments u) (upd_comments s),
      upd_watchers = first_present (upd_watchers u) (upd_watchers s),
      upd_resolvedAt = first_present (upd_resolvedAt u) (upd_resolvedAt s),
      upd_closedAt = first_present (upd_closedAt u) (upd_closedAt s)\<rparr>)"

definition validate_updates :: "bug_paths \<Rightarrow> bool" where
  "validate_updates u =
    ((case upd_title u of None \<Rightarrow> True | Some t \<Rightarrow> valid_title (js_trim t)) \<and>
     (case upd_description u of None \<Rightarrow> True | Some d \<Rightarrow> valid_description d) \<and>
     (case upd_status u of None \<Rightarrow> True | Some s \<Rightarrow> s \<in> set validStatuses) \<and>
     (case upd_priority u of None \<Rightarrow> True | Some p \<Rightarrow> p \<in> set validPriorities) \<and>
     (case upd_comments u of None \<Rightarrow> True | Some cs \<Rightarrow> list_all valid_comment cs))"

definition apply_updates :: "bug_paths \<Rightarrow> bug \<Rightarrow> bug" where
  "apply_updates u doc =
    doc\<lparr>title := (case upd_title u of None \<Rightarrow> title doc | Some t \<Rightarrow> js_trim t),
        description := (case upd_description u of None \<Rightarrow> description doc | Some d \<Rightarrow> d),
        status := (case upd_status u of None \<Rightarrow> status doc | Some s \<Rightarrow> s),
        priority := (case upd_priority u of None \<Rightarrow> priority doc | Some p \<Rightarrow> p),
        assignee := (case upd_assignee u of None \<Rightarrow> assignee doc | Some a \<Rightarrow> Some a),
        reporter := (case upd_reporter u of None \<Rightarrow> reporter doc | Some r \<Rightarrow> r),
        comments := (case upd_comments u of None \<Rightarrow> comments doc | Some cs \<Rightarrow> cs),
        watchers := (case upd_watchers u of None \<Rightarrow> watchers doc | Some ws \<Rightarrow> ws),
        resolvedAt := (case upd_resolvedAt u of None \<Rightarrow> resolvedAt doc | Some d \<Rightarrow> Some d),
        closedAt := (case upd_closedAt u of None \<Rightarrow> closedAt doc | Some d \<Rightarrow> Some d)\<rparr>"

definition findByIdAndUpdate ::
  "bug_store \<Rightarrow> date \<Rightarrow> objectId \<Rightarrow> bug_updates \<Rightarrow> bool \<Rightarrow> error + bug option \<times> bug_store" where
  "findByIdAndUpdate store now bugId u runValidators =
    (if runValidators \<and> \<not> validate_updates (cast_update u) then Inl ValidationError
     else case store bugId of
            None \<Rightarrow> Inr (None, store)
          | Some doc \<Rightarrow>
              let doc' = (apply_updates (cast_update u) doc)\<lparr>updatedAt := now\<rparr>
              in Inr (Some doc', store(bugId \<mapsto> doc')))"

text \<open>
  \<^verbatim>\<open>Bug.getStatistics\<close>: one \<^verbatim>\<open>$group\<close> stage over the whole collection, each field a
  \<^verbatim>\<open>$sum\<close> of a condition; an empty collection gives no group and the literal of zeros is
  returned instead.
\<close>

record stats =
  total :: nat
  n_open :: nat
  n_inProgress :: nat
  n_testing :: nat
  n_resolved :: nat
  n_closed :: nat
  n_critical :: nat
  n_high :: nat
  n_medium :: nat
  n_low :: nat

definition cond :: "bool \<Rightarrow> nat" where
  "cond b = (if b then 1 else 0)"

definition no_stats :: stats where
  "no_stats =
    \<lparr>total = 0, n_open = 0, n_inProgress = 0, n_testing = 0, n_resolved = 0, n_closed = 0,
     n_critical = 0, n_high = 0, n_medium = 0, n_low = 0\<rparr>"

definition group_sum :: "stats \<Rightarrow> bug \<Rightarrow> stats" where
  "group_sum acc doc =
    \<lparr>total = total acc + 1,
     n_open = n_open acc + cond (status doc = ''open''),
     n_inProgress = n_inProgress acc + cond (status doc = ''in-progress''),
     n_testing = n_testing acc + cond (status doc = ''testing''),
     n_resolved = n_resolved acc + cond (status doc = ''resolved''),
     n_closed = n_closed acc + cond (status doc = ''closed''),
     n_critical = n_critical acc + cond (priority doc = ''critical''),
     n_high = n_high acc + cond (priority doc = ''high''),
     n_medium = n_medium acc + cond (priority doc = ''medium''),
     n_low = n_low acc + cond (priority doc = ''low'')\<rparr>"

definition getStatistics :: "bug list \<Rightarrow> stats" where
  "getStatistics collection =
    (case collection of
       [] \<Rightarrow> no_stats
     | _ \<Rightarrow> foldl group_sum no_stats collection)"

section \<open>middleware/auth.js\<close>

text \<open>
  \<^verbatim>\<open>router.use(protect)\<close> stores the authenticated user in \<^verbatim>\<open>req.user\<close> before any route of
  the bug router runs. \<open>string_includes\<close> is \<^verbatim>\<open>String.prototype.includes\<close>.
\<close>

definition string_includes :: "string \<Rightarrow> string \<Rightarrow> bool" where
  "string_includes s search = sublist search s"

fun join :: "string \<Rightarrow> string list \<Rightarrow> string" where
  "join sep [] = []"
| "join sep [x] = x"
| "join sep (x # y # ys) = x @ sep @ join sep (y # ys)"

definition authorize :: "string list \<Rightarrow> user option \<Rightarrow> error + unit" where
  "authorize roles reqUser =
    (case reqUser of
       None \<Rightarrow> Inl (Response 401 ''Authentication required.'')
     | Some u \<Rightarrow>
         if role u \<notin> set roles
         then Inl (Response 403 (''Access denied. Required role: '' @ join '' or '' roles @ ''.''))
         else Inr ())"

text \<open>
  \<^verbatim>\<open>canModifyResource(resourceField)\<close>; \<open>routePath\<close> is \<^verbatim>\<open>req.route.path\<close>, the path the
  matched route was registered with, and \<open>resourceId\<close> is \<^verbatim>\<open>req.params[resourceField]\<close>.
  On success the bug it has loaded, if any, is left in \<^verbatim>\<open>req.bug\<close>.
\<close>

definition canModifyResource ::
  "string \<Rightarrow> user option \<Rightarrow> bug_store \<Rightarrow> objectId \<Rightarrow> error + bug option" where
  "canModifyResource routePath reqUser store resourceId =
    (case reqUser of
       None \<Rightarrow> Inl (Response 401 ''Authentication required.'')
     | Some u \<Rightarrow>
         if role u = ''admin'' then Inr None
         else if string_includes routePath ''/bugs'' then
           (case store resourceId of
              None \<Rightarrow> Inl (Response 404 ''Bug not found.'')
            | Some doc \<Rightarrow>
                if reporter doc = uid u \<or> assignee doc = Some (uid u) then Inr (Some doc)
                else Inl (Response 403
                  ''You can only modify bugs you reported or are assigned to.''))
         else Inr None)"

section \<open>controllers/bugController.js\<close>

text \<open>
  A handler takes the store and returns its answer with the store it leaves. The body of a
  create request may carry a reporter and a status of its own; the handler reads neither.
\<close>

record bug_body =
  body_title :: "string option"
  body_description :: "string option"
  body_priority :: "string option"
  body_stepsToReproduce :: "(string \<times> int) list option"
  body_reporter :: "objectId option"
  body_status :: "string option"

definition createBug ::
  "bug_store \<Rightarrow> objectId \<Rightarrow> date \<Rightarrow> user \<Rightarrow> bug_body \<Rightarrow> (error + bug) \<times> bug_store" where
  "createBug store newId now reqUser body =
    (case Bug_create store newId now
            \<lparr>new_title = body_title body,
             new_description = body_description body,
             new_priority = body_priority body,
             new_stepsToReproduce = body_stepsToReproduce body,
             new_reporter = uid reqUser\<rparr> of
       Inl e \<Rightarrow> (Inl e, store)
     | Inr (doc, store') \<Rightarrow> (Inr doc, store'))"

text \<open>
  \<^verbatim>\<open>updateBug\<close>. The three \<^verbatim>\<open>delete\<close> statements come first, and remove keys of the body
  itself; the transition is looked at only when \<^verbatim>\<open>updates.status\<close>, again a key of the body
  itself, is truthy, which for a string means not empty. The handler passes what is left of
  the body to the database as it is.
\<close>

definition strip_updates :: "bug_updates \<Rightarrow> bug_updates" where
  "strip_updates updates = updates\<lparr>upd_reporter := None, upd_createdAt := None, upd_comments := None\<rparr>"

definition write_updates ::
  "bug_store \<Rightarrow> date \<Rightarrow> objectId \<Rightarrow> bug_updates \<Rightarrow> (error + bug) \<times> bug_store" where
  "write_updates store now bugId updates =
    (case findByIdAndUpdate store now bugId updates True of
       Inl e \<Rightarrow> (Inl e, store)
     | Inr (None, store') \<Rightarrow> (Inl (AppError ''Bug not found'' 404), store)
     | Inr (Some doc, store') \<Rightarrow> (Inr doc, store'))"

definition updateBug ::
  "bug_store \<Rightarrow> date \<Rightarrow> objectId \<Rightarrow> bug_updates \<Rightarrow> (error + bug) \<times> bug_store" where
  "updateBug store now bugId body =
    (let updates = strip_updates body in
     (case upd_status updates of
        None \<Rightarrow> write_updates store now bugId updates
      | Some s \<Rightarrow>
         if s = [] then write_updates store now bugId updates
         else
           (case store bugId of
              None \<Rightarrow> (Inl (AppError ''Bug not found'' 404), store)
            | Some doc \<Rightarrow>
                (case validateStatusTransition (status doc) s of
                   Inl e \<Rightarrow> (Inl e, store)
                 | Inr ok \<Rightarrow>
                     if \<not> ok
                     then (Inl (AppError
                       (''Invalid status transition from '' @ status doc @ '' to '' @ s) 400), store)
                     else write_updates store now bugId updates))))"

definition deleteBug :: "bug_store \<Rightarrow> user \<Rightarrow> objectId \<Rightarrow> (error + unit) \<times> bug_store" where
  "deleteBug store reqUser bugId =
    (case store bugId of
       None \<Rightarrow> (Inl (AppError ''Bug not found'' 404), store)
     | Some doc \<Rightarrow>
         if reporter doc \<noteq> uid reqUser \<and> role reqUser \<noteq> ''admin''
         then (Inl (AppError ''You can only delete bugs you reported'' 403), store)
         else (Inr (), store(bugId := None)))"

definition assignBug ::
  "user_store \<Rightarrow> bug_store \<Rightarrow> date \<Rightarrow> objectId \<Rightarrow> objectId \<Rightarrow> (error + bug) \<times> bug_store" where
  "assignBug users store now bugId assigneeId =
    (case users assigneeId of
       None \<Rightarrow> (Inl (AppError ''Assignee not found'' 404), store)
     | Some a \<Rightarrow>
         if role a \<notin> set [''developer'', ''admin'']
         then (Inl (AppError ''User must be a developer or admin to be assigned bugs'' 400), store)
         else
           (case findByIdAndUpdate store now bugId (no_updates\<lparr>upd_assignee := Some assigneeId\<rparr>) False of
              Inl e \<Rightarrow> (Inl e, store)
            | Inr (None, store') \<Rightarrow> (Inl (AppError ''Bug not found'' 404), store)
            | Inr (Some doc, store') \<Rightarrow> (Inr doc, store')))"

text \<open>
  \<^verbatim>\<open>addComment\<close> answers with the last comment of the saved bug and the number of its
  comments; the date of the new comment is the schema's default, the time of the call.
\<close>

definition addComment ::
  "bug_store \<Rightarrow> date \<Rightarrow> user \<Rightarrow> objectId \<Rightarrow> string option \<Rightarrow> (error + bug_comment \<times> nat) \<times> bug_store" where
  "addComment store now reqUser bugId body_content =
    (case body_content of
       None \<Rightarrow> (Inl (AppError ''Comment content is required'' 400), store)
     | Some c \<Rightarrow>
         if c = [] \<or> length (js_trim c) = 0
         then (Inl (AppError ''Comment content is required'' 400), store)
         else
           (case store bugId of
              None \<Rightarrow> (Inl (AppError ''Bug not found'' 404), store)
            | Some doc \<Rightarrow>
                (case save store bugId False now
                        (doc\<lparr>comments := comments doc @
                           [\<lparr>author = uid reqUser, content = js_trim c,
                             commentCreatedAt = now\<rparr>]\<rparr>) of
                   Inl e \<Rightarrow> (Inl e, store)
                 | Inr (saved, store') \<Rightarrow>
                     (Inr (last (comments saved), length (comments saved)), store'))))"

text \<open>\<^verbatim>\<open>toggleWatcher\<close> answers with \<^verbatim>\<open>isWatching\<close> and \<^verbatim>\<open>watchersCount\<close>.\<close>

definition toggleWatcher ::
  "bug_store \<Rightarrow> date \<Rightarrow> user \<Rightarrow> objectId \<Rightarrow> (error + bool \<times> nat) \<times> bug_store" where
  "toggleWatcher store now reqUser bugId =
    (let userId = uid reqUser in
     (case store bugId of
        None \<Rightarrow> (Inl (AppError ''Bug not found'' 404), store)
      | Some doc \<Rightarrow>
         let isWatching = (userId \<in> set (watchers doc));
             doc1 = (if isWatching
                     then doc\<lparr>watchers := filter (\<lambda>watcher. watcher \<noteq> userId) (watchers doc)\<rparr>
                     else doc\<lparr>watchers := watchers doc @ [userId]\<rparr>)
         in (case save store bugId False now doc1 of
               Inl e \<Rightarrow> (Inl e, store)
             | Inr (saved, store') \<Rightarrow>
                 (Inr (\<not> isWatching, length (watchers saved)), store'))))"

section \<open>routes/bugRoutes.js\<close>

text \<open>
  The router is mounted at \<^verbatim>\<open>/api/bugs\<close>, and its routes are registered with the paths
  \<^verbatim>\<open>'/:id'\<close> and \<^verbatim>\<open>'/:id/assign'\<close>; these are what \<^verbatim>\<open>req.route.path\<close> holds, the mount
  point being in \<^verbatim>\<open>req.baseUrl\<close>. \<^verbatim>\<open>updateBugValidation\<close> trims the title and the
  description in the body and checks the fields present, all of them keys of the body itself;
  \<^verbatim>\<open>validateRequest\<close> answers 400 when a check failed. Before the router, the application's
  \<^verbatim>\<open>sanitizeInput\<close> escapes the characters of HTML in the string values of a body and leaves
  its keys alone; the strings of the requests used below hold no such character.
\<close>

definition updateBugValidation :: "bug_updates \<Rightarrow> error + bug_updates" where
  "updateBugValidation body =
    (let body' = body\<lparr>upd_title := map_option js_trim (upd_title body),
                      upd_description := map_option js_trim (upd_description body)\<rparr>
     in if (case upd_title body' of None \<Rightarrow> True | Some t \<Rightarrow> length t \<le> 200) \<and>
           (case upd_description body' of None \<Rightarrow> True | Some d \<Rightarrow> length d \<le> 2000) \<and>
           (case upd_status body' of None \<Rightarrow> True | Some s \<Rightarrow> s \<in> set validStatuses) \<and>
           (case upd_priority body' of None \<Rightarrow> True | Some p \<Rightarrow> p \<in> set validPriorities)
        then Inr body' else Inl ValidationFailed)"

definition put_bug ::
  "bug_store \<Rightarrow> date \<Rightarrow> user \<Rightarrow> objectId \<Rightarrow> bug_updates \<Rightarrow> (error + bug) \<times> bug_store" where
  "put_bug store now reqUser bugId body =
    (case updateBugValidation body of
       Inl e \<Rightarrow> (Inl e, store)
     | Inr body' \<Rightarrow>
         (case canModifyResource ''/:id'' (Some reqUser) store bugId of
            Inl e \<Rightarrow> (Inl e, store)
          | Inr _ \<Rightarrow> updateBug store now bugId body'))"

definition delete_bug :: "bug_store \<Rightarrow> user \<Rightarrow> objectId \<Rightarrow> (error + unit) \<times> bug_store" where
  "delete_bug store reqUser bugId =
    (case canModifyResource ''/:id'' (Some reqUser) store bugId of
       Inl e \<Rightarrow> (Inl e, store)
     | Inr _ \<Rightarrow> deleteBug store reqUser bugId)"

definition put_bug_assign ::
  "user_store \<Rightarrow> bug_store \<Rightarrow> date \<Rightarrow> user \<Rightarrow> objectId \<Rightarrow> objectId \<Rightarrow> (error + bug) \<times> bug_store" where
  "put_bug_assign users store now reqUser bugId assigneeId =
    (case authorize [''developer'', ''admin''] (Some reqUser) of
       Inl e \<Rightarrow> (Inl e, store)
     | Inr _ \<Rightarrow> assignBug users store now bugId assigneeId)"

section \<open>Sample values\<close>

text \<open>Four users, one bug of alice's, and requests, for the concrete runs further down.\<close>

definition alice :: user where
  "alice = \<lparr>uid = 1, username = ''alice'', role = ''reporter'', isActive = True\<rparr>"

definition bob :: user where
  "bob = \<lparr>uid = 2, username = ''bob'', role = ''developer'', isActive = True\<rparr>"

definition carol :: user where
  "carol = \<lparr>uid = 3, username = ''carol'', role = ''admin'', isActive = True\<rparr>"

definition dave :: user where
  "dave = \<lparr>uid = 4, username = ''dave'', role = ''reporter'', isActive = True\<rparr>"

definition sample_users :: user_store where
  "sample_users = [1 \<mapsto> alice, 2 \<mapsto> bob, 3 \<mapsto> carol, 4 \<mapsto> dave]"

definition sample_comment :: bug_comment where
  "sample_comment = \<lparr>author = 2, content = ''I can reproduce this'', commentCreatedAt = 1500\<rparr>"

definition sample_bug :: "string \<Rightarrow> string \<Rightarrow> bug" where
  "sample_bug s p =
    \<lparr>title = ''Login fails'', description = ''The login form rejects a valid password'',
     status = s, priority = p, assignee = None, reporter = 1, stepsToReproduce = [],
     comments = [sample_comment], watchers = [], resolvedAt = None, closedAt = None,
     createdAt = 1000, updatedAt = 1000\<rparr>"

definition sample_store :: "string \<Rightarrow> bug_store" where
  "sample_store s = [10 \<mapsto> sample_bug s ''high'']"

definition sample_collection :: "bug list" where
  "sample_collection =
    [sample_bug ''open'' ''high'', sample_bug ''open'' ''low'',
     sample_bug ''in-progress'' ''medium'', sample_bug ''resolved'' ''low'',
     sample_bug ''closed'' ''critical'']"

definition sample_body :: bug_body where
  "sample_body =
    \<lparr>body_title = Some ''  Crash on save '', body_description = Some ''Saving a draft crashes'',
     body_priority = None,
     body_stepsToReproduce = Some [(''press save'', 2), (''open a draft'', 1)],
     body_reporter = Some 3, body_status = Some ''closed''\<rparr>"

definition stranger_update :: bug_updates where
  "stranger_update = no_updates\<lparr>upd_title := Some ''Changed by a stranger''\<rparr>"

definition set_status_update :: bug_updates where
  "set_status_update = no_updates\<lparr>upd_set := Some (no_paths\<lparr>upd_status := Some ''resolved''\<rparr>)\<rparr>"

definition set_reporter_update :: bug_updates where
  "set_reporter_update =
    no_updates\<lparr>upd_set := Some (no_paths\<lparr>upd_reporter := Some 4, upd_comments := Some []\<rparr>)\<rparr>"



definition protected_update :: bug_updates where
  "protected_update =
    (no_updates\<lparr>upd_title := Some ''Updated Title''\<rparr>)
      \<lparr>upd_reporter := Some 4, upd_createdAt := Some 5, upd_comments := Some []\<rparr>"

definition updated_bug :: bug where
  "updated_bug = (sample_bug ''open'' ''high'')\<lparr>title := ''Updated Title'', updatedAt := 2000\<rparr>"

definition assigned_bug :: bug where
  "assigned_bug = (sample_bug ''open'' ''high'')\<lparr>assignee := Some 2, updatedAt := 2000\<rparr>"


definition created_bug :: bug where
  "created_bug =
    \<lparr>title = ''Crash on save'', description = ''Saving a draft crashes'',
     status = ''open'', priority = ''medium'', assignee = None, reporter = 1,
     stepsToReproduce = [(''open a draft'', 1), (''press save'', 2)],
     comments = [], watchers = [], resolvedAt = None, closedAt = None,
     createdAt = 1000, updatedAt = 1000\<rparr>"

section \<open>Auxiliary notions\<close>


definition valid_store :: "bug_store \<Rightarrow> bool" where
  "valid_store store = (\<forall>k doc. store k = Some doc \<longrightarrow> validate doc)"

section \<open>The transition validator\<close>

lemma get_property_allowedTransitions:
  "get_property allowedTransitions key =
    (if key = ''open'' then StringArray [''in-progress'', ''closed'']
     else if key = ''in-progress'' then StringArray [''testing'', ''open'', ''closed'']
     else if key = ''testing'' then StringArray [''resolved'', ''in-progress'', ''open'']
     else if key = ''resolved'' then StringArray [''closed'', ''open'']
     else if key = ''closed'' then StringArray [''open'']
     else if key \<in> set object_prototype_keys then Inherited else Undefined)"
  by (simp add: get_property_def allowedTransitions_def)

text \<open>
  Away from the inherited names the function is total and is the table: it answers true on the
  eleven listed edges and false on every other pair, whatever the two strings are.
\<close>

lemma validateStatusTransition_table:
  assumes "currentStatus \<notin> set object_prototype_keys"
  shows "validateStatusTransition currentStatus newStatus =
    Inr ((currentStatus, newStatus) \<in> set listed_edges)"
proof -
  consider "currentStatus = ''open''" | "currentStatus = ''in-progress''"
    | "currentStatus = ''testing''" | "currentStatus = ''resolved''"
    | "currentStatus = ''closed''"
    | "currentStatus \<notin> set validStatuses"
    by (auto simp: validStatuses_def)
  then show ?thesis
  proof cases
    case 6
    then show ?thesis
      using assms
      by (auto simp: validateStatusTransition_def get_property_allowedTransitions
          validStatuses_def listed_edges_def)
  qed (auto simp: validateStatusTransition_def get_property_allowedTransitions listed_edges_def)
qed

lemma validStatuses_not_inherited:
  "s \<in> set validStatuses \<Longrightarrow> s \<notin> set object_prototype_keys"
  by (auto simp: validStatuses_def object_prototype_keys_def)

lemma validateStatusTransition_same_status:
  "s \<in> set validStatuses \<Longrightarrow> validateStatusTransition s s = Inr False"
  by (auto simp: validateStatusTransition_table validStatuses_not_inherited)
    (auto simp: validStatuses_def listed_edges_def)

lemma validateStatusTransition_inherited:
  "currentStatus \<in> set object_prototype_keys \<Longrightarrow>
   validateStatusTransition currentStatus newStatus = Inl TypeError"
  by (auto simp: validateStatusTransition_def get_property_allowedTransitions
      object_prototype_keys_def)

lemma open_to_resolved: "validateStatusTransition ''open'' ''resolved'' = Inr False"
  by (simp add: validateStatusTransition_def get_property_allowedTransitions)

lemma open_to_empty: "validateStatusTransition ''open'' [] = Inr False"
  by (simp add: validateStatusTransition_def get_property_allowedTransitions
      object_prototype_keys_def)

lemma testing_to_resolved: "validateStatusTransition ''testing'' ''resolved'' = Inr True"
  by (simp add: validateStatusTransition_def get_property_allowedTransitions)

text \<open>
  C1. The validator is to return true exactly on the listed edges and false on every other
  pair, also when a side is not one of the five statuses. With a current status that names a
  property inherited from \<^verbatim>\<open>Object.prototype\<close> the function does not return false: the
  call \<^verbatim>\<open>validateStatusTransition('constructor', 'open')\<close> throws a \<^verbatim>\<open>TypeError\<close>.
\<close>

theorem validateStatusTransition_inherited_key_throws:
  "validateStatusTransition ''constructor'' ''open'' = Inl TypeError"
  by (simp add: validateStatusTransition_def get_property_def allowedTransitions_def
      object_prototype_keys_def)

section \<open>Saving a document\<close>

lemma pre_save_fields [simp]:
  "title (pre_save m now doc) = title doc"
  "description (pre_save m now doc) = description doc"
  "status (pre_save m now doc) = status doc"
  "priority (pre_save m now doc) = priority doc"
  "assignee (pre_save m now doc) = assignee doc"
  "reporter (pre_save m now doc) = reporter doc"
  "comments (pre_save m now doc) = comments doc"
  "watchers (pre_save m now doc) = watchers doc"
  "createdAt (pre_save m now doc) = createdAt doc"
  "stepsToReproduce (pre_save m now doc) = sort_key snd (stepsToReproduce doc)"
  by (simp_all add: pre_save_def Let_def)

lemma save_result:
  "save store bugId m now doc =
    (if validate doc
     then Inr ((pre_save m now doc)\<lparr>updatedAt := now\<rparr>,
               store(bugId \<mapsto> (pre_save m now doc)\<lparr>updatedAt := now\<rparr>))
     else Inl ValidationError)"
  by (simp add: save_def Let_def)

lemma validate_pre_save [simp]: "validate (pre_save m now doc) = validate doc"
  by (simp add: validate_def list_all_iff)

lemma validate_updatedAt [simp]: "validate (doc\<lparr>updatedAt := d\<rparr>) = validate doc"
  by (simp add: validate_def)

lemma validate_watchers [simp]: "validate (doc\<lparr>watchers := ws\<rparr>) = validate doc"
  by (simp add: validate_def)

lemma validate_append_comment:
  "validate (doc\<lparr>comments := comments doc @ [cm]\<rparr>) = (validate doc \<and> valid_comment cm)"
  by (auto simp: validate_def)

lemma sample_found: "sample_store s 10 = Some (sample_bug s ''high'')"
  by (simp add: sample_store_def)

lemma sample_valid: "validate (sample_bug ''open'' ''high'')"
  by (simp add: validate_def sample_bug_def sample_comment_def valid_title_def
      valid_description_def valid_comment_def validStatuses_def validPriorities_def)


text \<open>
  What the hook does for the two dates: a save that changes the status to resolved or closed
  sets the date when there is none, and no save replaces or clears a date that is there.
\<close>

lemma pre_save_sets_resolvedAt:
  "status doc = ''resolved'' \<Longrightarrow> resolvedAt doc = None \<Longrightarrow>
   resolvedAt (pre_save True now doc) = Some now"
  by (simp add: pre_save_def Let_def)

lemma pre_save_sets_closedAt:
  "status doc = ''closed'' \<Longrightarrow> closedAt doc = None \<Longrightarrow>
   closedAt (pre_save True now doc) = Some now"
  by (simp add: pre_save_def Let_def)

lemma pre_save_keeps_resolvedAt:
  "resolvedAt doc = Some d \<Longrightarrow> resolvedAt (pre_save m now doc) = Some d"
  by (simp add: pre_save_def Let_def)

lemma pre_save_keeps_closedAt:
  "closedAt doc = Some d \<Longrightarrow> closedAt (pre_save m now doc) = Some d"
  by (simp add: pre_save_def Let_def)

lemma updateStatus_sets_resolvedAt:
  assumes "validate doc" and "status doc \<noteq> ''resolved''" and "resolvedAt doc = None"
  shows "\<exists>doc'. updateStatus store bugId now doc ''resolved'' =
      Inr (doc', store(bugId \<mapsto> doc')) \<and>
    status doc' = ''resolved'' \<and> resolvedAt doc' = Some now"
proof -
  have "validate (doc\<lparr>status := ''resolved''\<rparr>)"
    using assms(1) by (simp add: validate_def validStatuses_def)
  then show ?thesis
    using assms(2,3) by (simp add: updateStatus_def save_result pre_save_def Let_def)
qed

section \<open>Creating a bug\<close>

text \<open>
  C4. Whenever \<^verbatim>\<open>createBug\<close> stores a bug, its reporter is the acting user and its status is
  \<^verbatim>\<open>'open'\<close>; and a reporter or a status put in the request body changes nothing: the answer
  and the store are those of the same request without them.
\<close>

theorem createBug_reporter_and_status:
  "(createBug store newId now reqUser body = (Inr doc, store') \<longrightarrow>
      reporter doc = uid reqUser \<and> status doc = ''open'' \<and> store' = store(newId \<mapsto> doc)) \<and>
   createBug store newId now reqUser (body\<lparr>body_reporter := r, body_status := s\<rparr>) =
     createBug store newId now reqUser body"
  by (auto simp: createBug_def Bug_create_def save_result Let_def split: if_splits)

lemma createBug_sample:
  "createBug Map.empty 10 1000 alice sample_body = (Inr created_bug, [10 \<mapsto> created_bug])"
proof -
  have trim: "js_trim ''  Crash on save '' = ''Crash on save''"
    by (simp add: js_trim_def is_whitespace_def)
  let ?doc = "\<lparr>title = ''Crash on save'', description = ''Saving a draft crashes'',
     status = ''open'', priority = ''medium'', assignee = None, reporter = 1,
     stepsToReproduce = [(''press save'', 2), (''open a draft'', 1)],
     comments = [], watchers = [], resolvedAt = None, closedAt = None,
     createdAt = 1000, updatedAt = 1000\<rparr>"
  have create: "Bug_create Map.empty 10 1000
      \<lparr>new_title = body_title sample_body, new_description = body_description sample_body,
       new_priority = body_priority sample_body,
       new_stepsToReproduce = body_stepsToReproduce sample_body,
       new_reporter = uid alice\<rparr> = save Map.empty 10 False 1000 ?doc"
    by (simp add: Bug_create_def sample_body_def alice_def trim)
  have valid: "validate ?doc"
    by (simp add: validate_def valid_title_def valid_description_def valid_step_def
        validStatuses_def validPriorities_def)
  have hook: "(pre_save False 1000 ?doc)\<lparr>updatedAt := 1000\<rparr> = created_bug"
    by (simp add: pre_save_def created_bug_def)
  have "save Map.empty 10 False 1000 ?doc = Inr (created_bug, [10 \<mapsto> created_bug])"
    unfolding save_result hook using valid by simp
  then show ?thesis
    unfolding createBug_def create by simp
qed

theorem createBug_reporter_and_status_witness:
  "createBug Map.empty 10 1000 alice sample_body = (Inr created_bug, [10 \<mapsto> created_bug]) \<and>
   body_reporter sample_body = Some 3 \<and> body_status sample_body = Some ''closed'' \<and>
   reporter created_bug = uid alice \<and> status created_bug = ''open'' \<and>
   createBug Map.empty 10 1000 alice (sample_body\<lparr>body_reporter := None, body_status := None\<rparr>) =
     (Inr created_bug, [10 \<mapsto> created_bug])"
proof -
  note inst = createBug_reporter_and_status
    [where store = Map.empty and newId = 10 and now = 1000 and reqUser = alice
      and body = sample_body and doc = created_bug and store' = "[10 \<mapsto> created_bug]"
      and r = None and s = None]
  from inst createBug_sample
  have "reporter created_bug = uid alice \<and> status created_bug = ''open''"
    by blast
  moreover from inst createBug_sample
  have "createBug Map.empty 10 1000 alice
      (sample_body\<lparr>body_reporter := None, body_status := None\<rparr>) =
     (Inr created_bug, [10 \<mapsto> created_bug])"
    by simp
  ultimately show ?thesis
    using createBug_sample by (simp add: sample_body_def)
qed

section \<open>The routes of the bug router\<close>

lemma route_path_without_bugs: "\<not> string_includes ''/:id'' ''/bugs''"
  unfolding string_includes_def by code_simp

text \<open>
  On the routes of the bug router the path test of \<^verbatim>\<open>canModifyResource\<close> is false, so the
  middleware lets every authenticated user through without loading the bug.
\<close>

lemma canModifyResource_on_route:
  "canModifyResource ''/:id'' (Some reqUser) store bugId = Inr None"
  by (simp add: canModifyResource_def route_path_without_bugs)

lemma put_bug_unguarded:
  "put_bug store now reqUser bugId body =
    (case updateBugValidation body of
       Inl e \<Rightarrow> (Inl e, store)
     | Inr body' \<Rightarrow> updateBug store now bugId body')"
  by (simp add: put_bug_def canModifyResource_on_route split: sum.splits)

section \<open>Updating a bug\<close>

lemma first_present_simps [simp]:
  "first_present None nested = nested"
  "first_present (Some v) nested = Some v"
  by (simp_all add: first_present_def)

lemma cast_update_fields [simp]:
  "upd_title (cast_update u) =
     first_present (upd_title u) (case upd_set u of None \<Rightarrow> None | Some s \<Rightarrow> upd_title s)"
  "upd_description (cast_update u) =
     first_present (upd_description u) (case upd_set u of None \<Rightarrow> None | Some s \<Rightarrow> upd_description s)"
  "upd_status (cast_update u) =
     first_present (upd_status u) (case upd_set u of None \<Rightarrow> None | Some s \<Rightarrow> upd_status s)"
  "upd_priority (cast_update u) =
     first_present (upd_priority u) (case upd_set u of None \<Rightarrow> None | Some s \<Rightarrow> upd_priority s)"
  "upd_assignee (cast_update u) =
     first_present (upd_assignee u) (case upd_set u of None \<Rightarrow> None | Some s \<Rightarrow> upd_assignee s)"
  "upd_reporter (cast_update u) =
     first_present (upd_reporter u) (case upd_set u of None \<Rightarrow> None | Some s \<Rightarrow> upd_reporter s)"
  "upd_createdAt (cast_update u) = None"
  "upd_comments (cast_update u) =
     first_present (upd_comments u) (case upd_set u of None \<Rightarrow> None | Some s \<Rightarrow> upd_comments s)"
  "upd_watchers (cast_update u) =
     first_present (upd_watchers u) (case upd_set u of None \<Rightarrow> None | Some s \<Rightarrow> upd_watchers s)"
  "upd_resolvedAt (cast_update u) =
     first_present (upd_resolvedAt u) (case upd_set u of None \<Rightarrow> None | Some s \<Rightarrow> upd_resolvedAt s)"
  "upd_closedAt (cast_update u) =
     first_present (upd_closedAt u) (case upd_set u of None \<Rightarrow> None | Some s \<Rightarrow> upd_closedAt s)"
  by (simp_all add: cast_update_def Let_def no_paths_def split: option.splits)

lemma apply_updates_fields [simp]:
  "title (apply_updates u doc) = (case upd_title u of None \<Rightarrow> title doc | Some t \<Rightarrow> js_trim t)"
  "description (apply_updates u doc) =
     (case upd_description u of None \<Rightarrow> description doc | Some d \<Rightarrow> d)"
  "status (apply_updates u doc) = (case upd_status u of None \<Rightarrow> status doc | Some s \<Rightarrow> s)"
  "priority (apply_updates u doc) = (case upd_priority u of None \<Rightarrow> priority doc | Some p \<Rightarrow> p)"
  "assignee (apply_updates u doc) =
     (case upd_assignee u of None \<Rightarrow> assignee doc | Some a \<Rightarrow> Some a)"
  "reporter (apply_updates u doc) = (case upd_reporter u of None \<Rightarrow> reporter doc | Some r \<Rightarrow> r)"
  "comments (apply_updates u doc) = (case upd_comments u of None \<Rightarrow> comments doc | Some cs \<Rightarrow> cs)"
  "watchers (apply_updates u doc) = (case upd_watchers u of None \<Rightarrow> watchers doc | Some ws \<Rightarrow> ws)"
  "resolvedAt (apply_updates u doc) =
     (case upd_resolvedAt u of None \<Rightarrow> resolvedAt doc | Some d \<Rightarrow> Some d)"
  "closedAt (apply_updates u doc) =
     (case upd_closedAt u of None \<Rightarrow> closedAt doc | Some d \<Rightarrow> Some d)"
  "createdAt (apply_updates u doc) = createdAt doc"
  "stepsToReproduce (apply_updates u doc) = stepsToReproduce doc"
  "updatedAt (apply_updates u doc) = updatedAt doc"
  by (simp_all add: apply_updates_def)

lemma strip_updates_fields [simp]:
  "upd_title (strip_updates u) = upd_title u"
  "upd_description (strip_updates u) = upd_description u"
  "upd_status (strip_updates u) = upd_status u"
  "upd_priority (strip_updates u) = upd_priority u"
  "upd_assignee (strip_updates u) = upd_assignee u"
  "upd_watchers (strip_updates u) = upd_watchers u"
  "upd_resolvedAt (strip_updates u) = upd_resolvedAt u"
  "upd_closedAt (strip_updates u) = upd_closedAt u"
  "upd_reporter (strip_updates u) = None"
  "upd_createdAt (strip_updates u) = None"
  "upd_comments (strip_updates u) = None"
  "upd_set (strip_updates u) = upd_set u"
  by (simp_all add: strip_updates_def)

lemma write_updates_result:
  "write_updates store now bugId u =
    (if \<not> validate_updates (cast_update u) then (Inl ValidationError, store)
     else case store bugId of
            None \<Rightarrow> (Inl (AppError ''Bug not found'' 404), store)
          | Some doc \<Rightarrow>
              (Inr ((apply_updates (cast_update u) doc)\<lparr>updatedAt := now\<rparr>),
               store(bugId \<mapsto> (apply_updates (cast_update u) doc)\<lparr>updatedAt := now\<rparr>)))"
  by (simp add: write_updates_def findByIdAndUpdate_def Let_def split: option.splits)

text \<open>Every call either stops with an error and the store it was given, or writes the stripped body.\<close>

lemma updateBug_cases:
  "updateBug store now bugId body = write_updates store now bugId (strip_updates body) \<or>
   (\<exists>e. updateBug store now bugId body = (Inl e, store))"
  by (simp add: updateBug_def Let_def split: option.splits sum.splits)

lemma updateBug_success:
  assumes "updateBug store now bugId body = (Inr doc', store')"
  shows "\<exists>doc. store bugId = Some doc \<and>
    doc' = (apply_updates (cast_update (strip_updates body)) doc)\<lparr>updatedAt := now\<rparr> \<and>
    store' = store(bugId \<mapsto> doc')"
proof -
  from updateBug_cases [of store now bugId body] assms
  have "write_updates store now bugId (strip_updates body) = (Inr doc', store')"
    by auto
  then show ?thesis
    by (auto simp: write_updates_result split: if_splits option.splits)
qed

text \<open>A body without a status of its own goes to the database unchecked.\<close>

lemma updateBug_writes:
  assumes "store bugId = Some doc" and "upd_status body = None"
    and "validate_updates (cast_update (strip_updates body))"
  shows "updateBug store now bugId body =
    (Inr ((apply_updates (cast_update (strip_updates body)) doc)\<lparr>updatedAt := now\<rparr>),
     store(bugId \<mapsto> (apply_updates (cast_update (strip_updates body)) doc)\<lparr>updatedAt := now\<rparr>))"
  using assms by (simp add: updateBug_def Let_def write_updates_result)

text \<open>
  A status among the keys of the body itself is checked: when the bug exists and the validator
  rejects the step to that status, nothing is written.
\<close>

lemma updateBug_rejects:
  assumes "store bugId = Some doc" and "upd_status body = Some s" and "s \<noteq> []"
    and "validateStatusTransition (status doc) s = Inr False"
  shows "updateBug store now bugId body =
    (Inl (AppError (''Invalid status transition from '' @ status doc @ '' to '' @ s) 400), store)"
  using assms by (simp add: updateBug_def Let_def)

lemma updateBug_rejects_sample:
  "updateBug (sample_store ''open'') 2000 10
      (no_updates\<lparr>upd_title := Some ''Renamed'', upd_status := Some ''resolved''\<rparr>) =
     (Inl (AppError ''Invalid status transition from open to resolved'' 400),
      sample_store ''open'')"
proof -
  have st: "status (sample_bug ''open'' ''high'') = ''open''"
    by (simp add: sample_bug_def)
  have "upd_status (no_updates\<lparr>upd_title := Some ''Renamed'', upd_status := Some ''resolved''\<rparr>)
      = Some ''resolved''"
    by simp
  from updateBug_rejects
    [where store = "sample_store ''open''" and bugId = 10 and doc = "sample_bug ''open'' ''high''"
      and body = "no_updates\<lparr>upd_title := Some ''Renamed'', upd_status := Some ''resolved''\<rparr>"
      and s = "''resolved''" and now = 2000]
    sample_found [of "''open''"] this
  show ?thesis
    by (simp add: st open_to_resolved)
qed

lemma updateBugValidation_set_only:
  "updateBugValidation (no_updates\<lparr>upd_set := s\<rparr>) = Inr (no_updates\<lparr>upd_set := s\<rparr>)"
  by (simp add: updateBugValidation_def no_updates_def Let_def)

text \<open>
  C2. A request whose status the validator rejects is to fail with the error of an illegal
  transition and to change nothing. The handler looks for the status among the keys of the
  body only, and hands the body to \<^verbatim>\<open>findByIdAndUpdate\<close> as it is: the request
  \<^verbatim>\<open>{"$set": {"status": "resolved"}}\<close>, sent by the reporter for a bug that is open, passes
  the route's validation, is not checked against the table, and is written. The bug goes
  from open to resolved, a step that the validator rejects.
\<close>

theorem updateBug_set_operator_skips_transition_check:
  "status (sample_bug ''open'' ''high'') = ''open'' \<and>
   validateStatusTransition ''open'' ''resolved'' = Inr False \<and>
   put_bug (sample_store ''open'') 2000 alice 10 set_status_update =
     (Inr ((sample_bug ''open'' ''high'')\<lparr>status := ''resolved'', updatedAt := 2000\<rparr>),
      [10 \<mapsto> (sample_bug ''open'' ''high'')\<lparr>status := ''resolved'', updatedAt := 2000\<rparr>]) \<and>
   updateBug (sample_store ''open'') 2000 10 set_status_update =
     (Inr ((sample_bug ''open'' ''high'')\<lparr>status := ''resolved'', updatedAt := 2000\<rparr>),
      [10 \<mapsto> (sample_bug ''open'' ''high'')\<lparr>status := ''resolved'', updatedAt := 2000\<rparr>])"
proof -
  have n: "upd_status set_status_update = None"
    by (simp add: set_status_update_def no_updates_def)
  have w: "validate_updates (cast_update (strip_updates set_status_update))"
    by (simp add: validate_updates_def set_status_update_def no_updates_def no_paths_def
        validStatuses_def)
  have a: "apply_updates (cast_update (strip_updates set_status_update))
      (sample_bug ''open'' ''high'') = (sample_bug ''open'' ''high'')\<lparr>status := ''resolved''\<rparr>"
    by (simp add: apply_updates_def set_status_update_def no_updates_def no_paths_def)
  have run: "updateBug (sample_store ''open'') 2000 10 set_status_update =
     (Inr ((sample_bug ''open'' ''high'')\<lparr>status := ''resolved'', updatedAt := 2000\<rparr>),
      [10 \<mapsto> (sample_bug ''open'' ''high'')\<lparr>status := ''resolved'', updatedAt := 2000\<rparr>])"
    using updateBug_writes [where store = "sample_store ''open''" and bugId = 10
        and doc = "sample_bug ''open'' ''high''" and body = set_status_update and now = 2000]
      sample_found [of "''open''"] n w
    by (simp add: a sample_store_def)
  have v: "updateBugValidation set_status_update = Inr set_status_update"
    unfolding set_status_update_def by (rule updateBugValidation_set_only)
  from run v open_to_resolved show ?thesis
    by (simp add: put_bug_unguarded sample_bug_def)
qed

text \<open>
  What the three \<^verbatim>\<open>delete\<close> statements do achieve: a reporter, a creation date or a list of
  comments among the keys of the body itself is dropped without an error, and a body that
  carries no \<^verbatim>\<open>$set\<close> leaves the reporter and the comments of every stored bug as they were.
  The creation date is never written, whatever the body.
\<close>

lemma strip_updates_absorbs:
  "strip_updates (body\<lparr>upd_reporter := r, upd_createdAt := c, upd_comments := cs\<rparr>) =
   strip_updates body"
  by (simp add: strip_updates_def)

lemma updateBug_reads_stripped:
  "updateBug store now bugId (body\<lparr>upd_reporter := r, upd_createdAt := c, upd_comments := cs\<rparr>) =
   updateBug store now bugId body"
  unfolding updateBug_def strip_updates_absorbs ..

lemma updateBug_keeps_createdAt:
  "map_option createdAt (snd (updateBug store now bugId body) k) = map_option createdAt (store k)"
  using updateBug_cases [of store now bugId body]
  by (auto simp: write_updates_result split: option.splits)

lemma updateBug_plain_body_keeps:
  assumes "upd_set body = None"
  shows "map_option reporter (snd (updateBug store now bugId body) k) =
      map_option reporter (store k)"
    and "map_option comments (snd (updateBug store now bugId body) k) =
      map_option comments (store k)"
  using updateBug_cases [of store now bugId body] assms
  by (auto simp: write_updates_result split: option.splits)

lemma updateBug_title_only:
  "updateBug (sample_store ''open'') 2000 10 protected_update =
    (Inr updated_bug, [10 \<mapsto> updated_bug])"
proof -
  have trim: "js_trim ''Updated Title'' = ''Updated Title''"
    by (simp add: js_trim_def is_whitespace_def)
  have n: "upd_status protected_update = None"
    by (simp add: protected_update_def no_updates_def)
  have w: "validate_updates (cast_update (strip_updates protected_update))"
    by (simp add: validate_updates_def protected_update_def no_updates_def valid_title_def trim)
  have a: "apply_updates (cast_update (strip_updates protected_update))
      (sample_bug ''open'' ''high'') = (sample_bug ''open'' ''high'')\<lparr>title := ''Updated Title''\<rparr>"
    by (simp add: apply_updates_def protected_update_def no_updates_def trim)
  from updateBug_writes [where store = "sample_store ''open''" and bugId = 10
        and doc = "sample_bug ''open'' ''high''" and body = protected_update and now = 2000]
      sample_found [of "''open''"] n w show ?thesis
    by (simp add: a sample_store_def updated_bug_def)
qed

text \<open>
  C6. The reporter, the creation date and the comments of a bug are to be out of reach of an
  update request. The three \<^verbatim>\<open>delete\<close> statements remove the keys \<^verbatim>\<open>reporter\<close>,
  \<^verbatim>\<open>createdAt\<close> and \<^verbatim>\<open>comments\<close> of the body itself and nothing below them: the request
  \<^verbatim>\<open>{"$set": {"reporter": 4, "comments": []}}\<close>, sent by alice for her bug, passes the
  route's validation and is written. The bug is then reported by user 4 and its comment is
  gone.
\<close>

theorem updateBug_set_operator_overwrites_reporter:
  "reporter (sample_bug ''open'' ''high'') = 1 \<and>
   comments (sample_bug ''open'' ''high'') = [sample_comment] \<and>
   put_bug (sample_store ''open'') 2000 alice 10 set_reporter_update =
     (Inr ((sample_bug ''open'' ''high'')\<lparr>reporter := 4, comments := [], updatedAt := 2000\<rparr>),
      [10 \<mapsto> (sample_bug ''open'' ''high'')
         \<lparr>reporter := 4, comments := [], updatedAt := 2000\<rparr>]) \<and>
   updateBug (sample_store ''open'') 2000 10 set_reporter_update =
     (Inr ((sample_bug ''open'' ''high'')\<lparr>reporter := 4, comments := [], updatedAt := 2000\<rparr>),
      [10 \<mapsto> (sample_bug ''open'' ''high'')
         \<lparr>reporter := 4, comments := [], updatedAt := 2000\<rparr>])"
proof -
  have n: "upd_status set_reporter_update = None"
    by (simp add: set_reporter_update_def no_updates_def)
  have w: "validate_updates (cast_update (strip_updates set_reporter_update))"
    by (simp add: validate_updates_def set_reporter_update_def no_updates_def no_paths_def)
  have a: "apply_updates (cast_update (strip_updates set_reporter_update))
      (sample_bug ''open'' ''high'') =
      (sample_bug ''open'' ''high'')\<lparr>reporter := 4, comments := []\<rparr>"
    by (simp add: apply_updates_def set_reporter_update_def no_updates_def no_paths_def)
  have run: "updateBug (sample_store ''open'') 2000 10 set_reporter_update =
     (Inr ((sample_bug ''open'' ''high'')\<lparr>reporter := 4, comments := [], updatedAt := 2000\<rparr>),
      [10 \<mapsto> (sample_bug ''open'' ''high'')
         \<lparr>reporter := 4, comments := [], updatedAt := 2000\<rparr>])"
    using updateBug_writes [where store = "sample_store ''open''" and bugId = 10
        and doc = "sample_bug ''open'' ''high''" and body = set_reporter_update and now = 2000]
      sample_found [of "''open''"] n w
    by (simp add: a sample_store_def)
  have v: "updateBugValidation set_reporter_update = Inr set_reporter_update"
    unfolding set_reporter_update_def by (rule updateBugValidation_set_only)
  from run v show ?thesis
    by (simp add: put_bug_unguarded sample_bug_def)
qed

section \<open>The dates of resolution and of closing\<close>

text \<open>
  C5. The dates are to be set the first time a bug reaches resolved or closed, by every
  operation that changes the status, \<^verbatim>\<open>updateBug\<close> included. The hook that sets them runs on
  \<^verbatim>\<open>save\<close> only, and \<^verbatim>\<open>updateBug\<close> writes with \<^verbatim>\<open>findByIdAndUpdate\<close>: a bug in testing
  that \<^verbatim>\<open>updateBug\<close> moves to resolved is stored as resolved with no date of resolution.
\<close>

theorem updateBug_resolves_without_resolvedAt:
  "updateBug (sample_store ''testing'') 2000 10 (no_updates\<lparr>upd_status := Some ''resolved''\<rparr>) =
     (Inr ((sample_bug ''testing'' ''high'')\<lparr>status := ''resolved'', updatedAt := 2000\<rparr>),
      [10 \<mapsto> (sample_bug ''testing'' ''high'')\<lparr>status := ''resolved'', updatedAt := 2000\<rparr>]) \<and>
   status ((sample_bug ''testing'' ''high'')\<lparr>status := ''resolved'', updatedAt := 2000\<rparr>) =
     ''resolved'' \<and>
   resolvedAt ((sample_bug ''testing'' ''high'')\<lparr>status := ''resolved'', updatedAt := 2000\<rparr>) =
     None"
proof -
  let ?u = "no_updates\<lparr>upd_status := Some ''resolved''\<rparr>"
  have w: "validate_updates (cast_update (strip_updates ?u))"
    by (simp add: validate_updates_def no_updates_def validStatuses_def)
  have a: "apply_updates (cast_update (strip_updates ?u)) (sample_bug ''testing'' ''high'') =
      (sample_bug ''testing'' ''high'')\<lparr>status := ''resolved''\<rparr>"
    by (simp add: apply_updates_def no_updates_def)
  have s: "status (sample_bug ''testing'' ''high'') = ''testing''"
    by (simp add: sample_bug_def)
  have "updateBug (sample_store ''testing'') 2000 10 ?u =
      write_updates (sample_store ''testing'') 2000 10 (strip_updates ?u)"
    by (simp add: updateBug_def Let_def sample_found s testing_to_resolved)
  also have "\<dots> =
     (Inr ((sample_bug ''testing'' ''high'')\<lparr>status := ''resolved'', updatedAt := 2000\<rparr>),
      (sample_store ''testing'')
        (10 \<mapsto> (sample_bug ''testing'' ''high'')\<lparr>status := ''resolved'', updatedAt := 2000\<rparr>))"
    by (simp add: write_updates_result w a sample_found)
  finally have "updateBug (sample_store ''testing'') 2000 10 ?u =
     (Inr ((sample_bug ''testing'' ''high'')\<lparr>status := ''resolved'', updatedAt := 2000\<rparr>),
      [10 \<mapsto> (sample_bug ''testing'' ''high'')\<lparr>status := ''resolved'', updatedAt := 2000\<rparr>])"
    by (simp add: sample_store_def)
  then show ?thesis by (simp add: sample_bug_def)
qed

section \<open>Who may update and who may delete\<close>

text \<open>Under a route path that contains \<^verbatim>\<open>/bugs\<close> the check is the one its comment announces.\<close>

lemma canModifyResource_intended:
  assumes "string_includes routePath ''/bugs''" and "role reqUser \<noteq> ''admin''"
    and "store bugId = Some doc"
  shows "canModifyResource routePath (Some reqUser) store bugId =
    (if reporter doc = uid reqUser \<or> assignee doc = Some (uid reqUser) then Inr (Some doc)
     else Inl (Response 403 ''You can only modify bugs you reported or are assigned to.''))"
  using assms by (simp add: canModifyResource_def)

text \<open>Deleting is guarded by the handler itself: the reporter and an admin may, nobody else.\<close>

lemma delete_bug_forbidden:
  assumes "store bugId = Some doc" and "role reqUser \<noteq> ''admin''"
    and "reporter doc \<noteq> uid reqUser"
  shows "delete_bug store reqUser bugId =
    (Inl (AppError ''You can only delete bugs you reported'' 403), store)"
  using assms by (simp add: delete_bug_def canModifyResource_on_route deleteBug_def)

lemma delete_bug_allowed:
  assumes "store bugId = Some doc" and "role reqUser = ''admin'' \<or> reporter doc = uid reqUser"
  shows "delete_bug store reqUser bugId = (Inr (), store(bugId := None))"
  using assms by (auto simp: delete_bug_def canModifyResource_on_route deleteBug_def)

text \<open>
  C3. A user who is not an admin is to be refused an update of a bug of which he is neither
  the reporter nor the assignee, with the bug unchanged. On the route \<^verbatim>\<open>PUT /:id\<close> the
  request of such a user is served: dave, a reporter by role, renames a bug that alice
  reported and that is assigned to nobody.
\<close>

theorem put_bug_by_stranger_succeeds:
  "role dave \<noteq> ''admin'' \<and> reporter (sample_bug ''open'' ''high'') \<noteq> uid dave \<and>
   assignee (sample_bug ''open'' ''high'') \<noteq> Some (uid dave) \<and>
   put_bug (sample_store ''open'') 2000 dave 10 stranger_update =
     (Inr ((sample_bug ''open'' ''high'')\<lparr>title := ''Changed by a stranger'', updatedAt := 2000\<rparr>),
      [10 \<mapsto> (sample_bug ''open'' ''high'')
         \<lparr>title := ''Changed by a stranger'', updatedAt := 2000\<rparr>])"
proof -
  have trim: "js_trim ''Changed by a stranger'' = ''Changed by a stranger''"
    by (simp add: js_trim_def is_whitespace_def)
  have v: "updateBugValidation stranger_update = Inr stranger_update"
    by (simp add: updateBugValidation_def stranger_update_def no_updates_def Let_def trim)
  have w: "validate_updates (cast_update (strip_updates stranger_update))"
    by (simp add: validate_updates_def stranger_update_def no_updates_def valid_title_def trim)
  have a: "apply_updates (cast_update (strip_updates stranger_update))
      (sample_bug ''open'' ''high'') =
      (sample_bug ''open'' ''high'')\<lparr>title := ''Changed by a stranger''\<rparr>"
    by (simp add: apply_updates_def stranger_update_def no_updates_def trim)
  have n: "upd_status stranger_update = None"
    by (simp add: stranger_update_def no_updates_def)
  have "updateBug (sample_store ''open'') 2000 10 stranger_update =
      write_updates (sample_store ''open'') 2000 10 (strip_updates stranger_update)"
    by (simp add: updateBug_def Let_def n)
  also have "\<dots> =
     (Inr ((sample_bug ''open'' ''high'')\<lparr>title := ''Changed by a stranger'', updatedAt := 2000\<rparr>),
      (sample_store ''open'')
        (10 \<mapsto> (sample_bug ''open'' ''high'')
           \<lparr>title := ''Changed by a stranger'', updatedAt := 2000\<rparr>))"
    by (simp add: write_updates_result w a sample_found)
  finally have "updateBug (sample_store ''open'') 2000 10 stranger_update =
     (Inr ((sample_bug ''open'' ''high'')\<lparr>title := ''Changed by a stranger'', updatedAt := 2000\<rparr>),
      [10 \<mapsto> (sample_bug ''open'' ''high'')
         \<lparr>title := ''Changed by a stranger'', updatedAt := 2000\<rparr>])"
    by (simp add: sample_store_def)
  then show ?thesis
    by (simp add: put_bug_unguarded v) (simp add: dave_def sample_bug_def)
qed

section \<open>Assigning a bug\<close>

lemma findByIdAndUpdate_assign:
  "findByIdAndUpdate store now bugId (no_updates\<lparr>upd_assignee := Some a\<rparr>) False =
    (case store bugId of
       None \<Rightarrow> Inr (None, store)
     | Some doc \<Rightarrow> Inr (Some (doc\<lparr>assignee := Some a, updatedAt := now\<rparr>),
         store(bugId \<mapsto> doc\<lparr>assignee := Some a, updatedAt := now\<rparr>)))"
  by (simp add: findByIdAndUpdate_def apply_updates_def cast_update_def no_updates_def
      no_paths_def Let_def first_present_def split: option.splits)

text \<open>The handler is reached by developers and admins only.\<close>

lemma put_bug_assign_by_role:
  "put_bug_assign users store now reqUser bugId assigneeId =
    (if role reqUser = ''developer'' \<or> role reqUser = ''admin''
     then assignBug users store now bugId assigneeId
     else (Inl (Response 403 ''Access denied. Required role: developer or admin.''), store))"
  by (simp add: put_bug_assign_def authorize_def)

text \<open>
  C7. \<^verbatim>\<open>assignBug\<close> succeeds only when the user to assign exists and is a developer or an
  admin, and the bug it answers with is assigned to that user. When that user is a reporter by
  role the call fails with \<^verbatim>\<open>User must be a developer or admin to be assigned bugs\<close> (400)
  and the store, hence the assignee of the bug, is as before; when there is no such user it
  fails with \<^verbatim>\<open>Assignee not found\<close> (404). For a developer or an admin and a bug that exists
  the call does succeed.
\<close>

theorem assignBug_checks_assignee:
  "(assignBug users store now bugId assigneeId = (Inr doc, store') \<longrightarrow>
      (\<exists>a. users assigneeId = Some a \<and> (role a = ''developer'' \<or> role a = ''admin'')) \<and>
      assignee doc = Some assigneeId) \<and>
   (users assigneeId = Some a \<and> role a = ''reporter'' \<longrightarrow>
      assignBug users store now bugId assigneeId =
        (Inl (AppError ''User must be a developer or admin to be assigned bugs'' 400), store)) \<and>
   (users assigneeId = None \<longrightarrow>
      assignBug users store now bugId assigneeId =
        (Inl (AppError ''Assignee not found'' 404), store)) \<and>
   (users assigneeId = Some a \<and> (role a = ''developer'' \<or> role a = ''admin'') \<and>
    store bugId = Some old \<longrightarrow>
      assignBug users store now bugId assigneeId =
        (Inr (old\<lparr>assignee := Some assigneeId, updatedAt := now\<rparr>),
         store(bugId \<mapsto> old\<lparr>assignee := Some assigneeId, updatedAt := now\<rparr>)))"
  by (auto simp: assignBug_def findByIdAndUpdate_assign split: option.splits if_splits)

theorem assignBug_checks_assignee_witness:
  "sample_users 1 = Some alice \<and> role alice = ''reporter'' \<and>
   assignBug sample_users (sample_store ''open'') 2000 10 1 =
     (Inl (AppError ''User must be a developer or admin to be assigned bugs'' 400),
      sample_store ''open'') \<and>
   sample_users 99 = None \<and>
   assignBug sample_users (sample_store ''open'') 2000 10 99 =
     (Inl (AppError ''Assignee not found'' 404), sample_store ''open'') \<and>
   sample_users 2 = Some bob \<and> role bob = ''developer'' \<and>
   assignBug sample_users (sample_store ''open'') 2000 10 2 =
     (Inr assigned_bug, (sample_store ''open'')(10 \<mapsto> assigned_bug)) \<and>
   assignee assigned_bug = Some 2"
proof -
  have u1: "sample_users 1 = Some alice" and r1: "role alice = ''reporter''"
    and u2: "sample_users 2 = Some bob" and r2: "role bob = ''developer''"
    and u99: "sample_users 99 = None"
    by (simp_all add: sample_users_def alice_def bob_def)
  from assignBug_checks_assignee
    [where users = sample_users and store = "sample_store ''open''" and now = 2000 and bugId = 10
      and assigneeId = 1 and a = alice] u1 r1
  have a: "assignBug sample_users (sample_store ''open'') 2000 10 1 =
     (Inl (AppError ''User must be a developer or admin to be assigned bugs'' 400),
      sample_store ''open'')"
    by blast
  from assignBug_checks_assignee
    [where users = sample_users and store = "sample_store ''open''" and now = 2000 and bugId = 10
      and assigneeId = 99] u99
  have b: "assignBug sample_users (sample_store ''open'') 2000 10 99 =
     (Inl (AppError ''Assignee not found'' 404), sample_store ''open'')"
    by blast
  note inst = assignBug_checks_assignee
    [where users = sample_users and store = "sample_store ''open''" and now = 2000 and bugId = 10
      and assigneeId = 2 and a = bob and old = "sample_bug ''open'' ''high''"
      and doc = assigned_bug and store' = "(sample_store ''open'')(10 \<mapsto> assigned_bug)"]
  from inst u2 r2 sample_found [of "''open''"]
  have c: "assignBug sample_users (sample_store ''open'') 2000 10 2 =
     (Inr assigned_bug, (sample_store ''open'')(10 \<mapsto> assigned_bug))"
    unfolding assigned_bug_def by blast
  from inst c have d: "assignee assigned_bug = Some 2"
    by blast
  from u1 r1 a u99 b u2 r2 c d show ?thesis
    by blast
qed

section \<open>Adding a comment\<close>

lemma addComment_result:
  assumes "store bugId = Some doc" and "js_trim c \<noteq> []"
  shows "addComment store now reqUser bugId (Some c) =
    (let cm = \<lparr>author = uid reqUser, content = js_trim c, commentCreatedAt = now\<rparr> in
     if validate doc \<and> length (js_trim c) \<le> 1000
     then (Inr (cm, length (comments doc) + 1),
           store(bugId \<mapsto> (pre_save False now (doc\<lparr>comments := comments doc @ [cm]\<rparr>))
             \<lparr>updatedAt := now\<rparr>))
     else (Inl ValidationError, store))"
proof -
  have "c \<noteq> []" using assms(2) by (auto simp: js_trim_def)
  then show ?thesis
    using assms
    by (simp add: addComment_def Let_def save_result validate_append_comment valid_comment_def)
qed

text \<open>
  C10. Whenever \<^verbatim>\<open>addComment\<close> answers with a comment, the content given is not empty after
  trimming, the content of the comment is the trimmed content, its author is the acting user,
  and the stored bug holds the comments it had, unchanged and in their order, followed by the
  new one. The call does answer so when the bug exists, satisfies the schema, and the trimmed
  content is not empty and has at most 1000 characters.
\<close>

theorem addComment_appends_trimmed:
  "(addComment store now reqUser bugId (Some c) = (Inr (cm, n), store') \<longrightarrow>
      js_trim c \<noteq> [] \<and> content cm = js_trim c \<and> author cm = uid reqUser \<and>
      (\<exists>doc doc'. store bugId = Some doc \<and> store' = store(bugId \<mapsto> doc') \<and>
         comments doc' = comments doc @ [cm] \<and> n = length (comments doc) + 1)) \<and>
   (store bugId = Some doc \<and> validate doc \<and> js_trim c \<noteq> [] \<and> length (js_trim c) \<le> 1000 \<longrightarrow>
      (\<exists>doc'. addComment store now reqUser bugId (Some c) =
         (Inr (\<lparr>author = uid reqUser, content = js_trim c, commentCreatedAt = now\<rparr>,
               length (comments doc) + 1),
          store(bugId \<mapsto> doc')) \<and>
         comments doc' =
           comments doc @ [\<lparr>author = uid reqUser, content = js_trim c, commentCreatedAt = now\<rparr>]))"
proof (rule conjI)
  show "addComment store now reqUser bugId (Some c) = (Inr (cm, n), store') \<longrightarrow>
      js_trim c \<noteq> [] \<and> content cm = js_trim c \<and> author cm = uid reqUser \<and>
      (\<exists>doc doc'. store bugId = Some doc \<and> store' = store(bugId \<mapsto> doc') \<and>
         comments doc' = comments doc @ [cm] \<and> n = length (comments doc) + 1)"
  proof (rule impI)
    assume ok: "addComment store now reqUser bugId (Some c) = (Inr (cm, n), store')"
    then have ne: "js_trim c \<noteq> []"
      by (auto simp: addComment_def split: if_splits)
    from ok obtain old where found: "store bugId = Some old"
      by (auto simp: addComment_def split: if_splits option.splits)
    from ok found ne addComment_result [of store bugId old c now reqUser]
    show "js_trim c \<noteq> [] \<and> content cm = js_trim c \<and> author cm = uid reqUser \<and>
      (\<exists>doc doc'. store bugId = Some doc \<and> store' = store(bugId \<mapsto> doc') \<and>
         comments doc' = comments doc @ [cm] \<and> n = length (comments doc) + 1)"
      by (auto simp: Let_def split: if_splits)
  qed
next
  show "store bugId = Some doc \<and> validate doc \<and> js_trim c \<noteq> [] \<and>
      length (js_trim c) \<le> 1000 \<longrightarrow>
      (\<exists>doc'. addComment store now reqUser bugId (Some c) =
         (Inr (\<lparr>author = uid reqUser, content = js_trim c, commentCreatedAt = now\<rparr>,
               length (comments doc) + 1),
          store(bugId \<mapsto> doc')) \<and>
         comments doc' =
           comments doc @ [\<lparr>author = uid reqUser, content = js_trim c, commentCreatedAt = now\<rparr>])"
  proof (rule impI)
    assume h: "store bugId = Some doc \<and> validate doc \<and> js_trim c \<noteq> [] \<and>
      length (js_trim c) \<le> 1000"
    let ?cm = "\<lparr>author = uid reqUser, content = js_trim c, commentCreatedAt = now\<rparr>"
    let ?doc' = "(pre_save False now (doc\<lparr>comments := comments doc @ [?cm]\<rparr>))
      \<lparr>updatedAt := now\<rparr>"
    from h have "addComment store now reqUser bugId (Some c) =
        (Inr (?cm, length (comments doc) + 1), store(bugId \<mapsto> ?doc'))"
      by (simp add: addComment_result Let_def)
    moreover have "comments ?doc' = comments doc @ [?cm]"
      by simp
    ultimately show "\<exists>doc'. addComment store now reqUser bugId (Some c) =
         (Inr (?cm, length (comments doc) + 1), store(bugId \<mapsto> doc')) \<and>
         comments doc' = comments doc @ [?cm]"
      by blast
  qed
qed

theorem addComment_appends_trimmed_witness:
  "sample_store ''open'' 10 = Some (sample_bug ''open'' ''high'') \<and>
   validate (sample_bug ''open'' ''high'') \<and>
   js_trim ''  Needs a fix  '' = ''Needs a fix'' \<and>
   fst (addComment (sample_store ''open'') 2000 dave 10 (Some ''  Needs a fix  '')) =
     Inr (\<lparr>author = 4, content = ''Needs a fix'', commentCreatedAt = 2000\<rparr>, 2)"
proof -
  have trim: "js_trim ''  Needs a fix  '' = ''Needs a fix''"
    by (simp add: js_trim_def is_whitespace_def)
  have len: "length (comments (sample_bug ''open'' ''high'')) + 1 = 2"
    by (simp add: sample_bug_def)
  have ok: "js_trim ''  Needs a fix  '' \<noteq> [] \<and> length (js_trim ''  Needs a fix  '') \<le> 1000"
    by (simp add: trim)
  from addComment_appends_trimmed
    [where store = "sample_store ''open''" and now = 2000 and reqUser = dave and bugId = 10
      and c = "''  Needs a fix  ''" and doc = "sample_bug ''open'' ''high''"
      and cm = sample_comment and n = 0 and store' = Map.empty]
    sample_found [of "''open''"] sample_valid ok
  have "\<exists>doc'. addComment (sample_store ''open'') 2000 dave 10 (Some ''  Needs a fix  '') =
      (Inr (\<lparr>author = uid dave, content = js_trim ''  Needs a fix  '', commentCreatedAt = 2000\<rparr>,
            length (comments (sample_bug ''open'' ''high'')) + 1),
       (sample_store ''open'')(10 \<mapsto> doc'))"
    by blast
  then have "fst (addComment (sample_store ''open'') 2000 dave 10 (Some ''  Needs a fix  '')) =
     Inr (\<lparr>author = 4, content = ''Needs a fix'', commentCreatedAt = 2000\<rparr>, 2)"
    unfolding len trim by (auto simp: dave_def)
  with sample_found [of "''open''"] sample_valid trim show ?thesis
    by blast
qed

section \<open>Watching a bug\<close>











section \<open>Statistics\<close>

lemma foldl_group_sum:
  "foldl group_sum acc collection =
    \<lparr>total = total acc + length collection,
     n_open = n_open acc + length (filter (\<lambda>doc. status doc = ''open'') collection),
     n_inProgress =
       n_inProgress acc + length (filter (\<lambda>doc. status doc = ''in-progress'') collection),
     n_testing = n_testing acc + length (filter (\<lambda>doc. status doc = ''testing'') collection),
     n_resolved = n_resolved acc + length (filter (\<lambda>doc. status doc = ''resolved'') collection),
     n_closed = n_closed acc + length (filter (\<lambda>doc. status doc = ''closed'') collection),
     n_critical =
       n_critical acc + length (filter (\<lambda>doc. priority doc = ''critical'') collection),
     n_high = n_high acc + length (filter (\<lambda>doc. priority doc = ''high'') collection),
     n_medium = n_medium acc + length (filter (\<lambda>doc. priority doc = ''medium'') collection),
     n_low = n_low acc + length (filter (\<lambda>doc. priority doc = ''low'') collection)\<rparr>"
proof (induction collection arbitrary: acc)
  case Nil
  show ?case by simp
next
  case (Cons doc collection)
  show ?case
    unfolding foldl_Cons Cons.IH
    by (simp add: group_sum_def cond_def)
qed

lemma getStatistics_eq:
  "getStatistics collection =
    \<lparr>total = length collection,
     n_open = length (filter (\<lambda>doc. status doc = ''open'') collection),
     n_inProgress = length (filter (\<lambda>doc. status doc = ''in-progress'') collection),
     n_testing = length (filter (\<lambda>doc. status doc = ''testing'') collection),
     n_resolved = length (filter (\<lambda>doc. status doc = ''resolved'') collection),
     n_closed = length (filter (\<lambda>doc. status doc = ''closed'') collection),
     n_critical = length (filter (\<lambda>doc. priority doc = ''critical'') collection),
     n_high = length (filter (\<lambda>doc. priority doc = ''high'') collection),
     n_medium = length (filter (\<lambda>doc. priority doc = ''medium'') collection),
     n_low = length (filter (\<lambda>doc. priority doc = ''low'') collection)\<rparr>"
proof (cases collection)
  case Nil
  then show ?thesis by (simp add: getStatistics_def no_stats_def)
next
  case (Cons doc rest)
  have "getStatistics collection = foldl group_sum no_stats collection"
    using Cons by (simp add: getStatistics_def)
  then show ?thesis
    by (simp add: foldl_group_sum no_stats_def)
qed

lemma filter_status_length:
  "length (filter (\<lambda>doc. status doc = s) collection) = count_list (map status collection) s"
  by (induction collection) auto

text \<open>
  C9. \<^verbatim>\<open>getStatistics\<close> returns the number of bugs as the total and, for each status and
  each priority, the number of bugs that carry it. A collection whose statuses are open, open,
  in-progress, resolved, closed gives total 5, open 2, inProgress 1, resolved 1, closed 1 (and
  testing 0); the empty collection gives the record of zeros.
\<close>

theorem getStatistics_counts:
  "getStatistics collection =
     \<lparr>total = length collection,
      n_open = length (filter (\<lambda>doc. status doc = ''open'') collection),
      n_inProgress = length (filter (\<lambda>doc. status doc = ''in-progress'') collection),
      n_testing = length (filter (\<lambda>doc. status doc = ''testing'') collection),
      n_resolved = length (filter (\<lambda>doc. status doc = ''resolved'') collection),
      n_closed = length (filter (\<lambda>doc. status doc = ''closed'') collection),
      n_critical = length (filter (\<lambda>doc. priority doc = ''critical'') collection),
      n_high = length (filter (\<lambda>doc. priority doc = ''high'') collection),
      n_medium = length (filter (\<lambda>doc. priority doc = ''medium'') collection),
      n_low = length (filter (\<lambda>doc. priority doc = ''low'') collection)\<rparr> \<and>
   (map status collection = [''open'', ''open'', ''in-progress'', ''resolved'', ''closed''] \<longrightarrow>
      total (getStatistics collection) = 5 \<and> n_open (getStatistics collection) = 2 \<and>
      n_inProgress (getStatistics collection) = 1 \<and> n_testing (getStatistics collection) = 0 \<and>
      n_resolved (getStatistics collection) = 1 \<and> n_closed (getStatistics collection) = 1) \<and>
   getStatistics [] = no_stats"
proof (intro conjI impI)
  show "getStatistics [] = no_stats" by (simp add: getStatistics_def)
next
  assume m: "map status collection = [''open'', ''open'', ''in-progress'', ''resolved'', ''closed'']"
  have len: "length collection = 5" using arg_cong [OF m, of length] by simp
  show "total (getStatistics collection) = 5" by (simp add: getStatistics_eq len)
  show "n_open (getStatistics collection) = 2"
    by (simp add: getStatistics_eq filter_status_length m)
  show "n_inProgress (getStatistics collection) = 1"
    by (simp add: getStatistics_eq filter_status_length m)
  show "n_testing (getStatistics collection) = 0"
    by (simp add: getStatistics_eq filter_status_length m)
  show "n_resolved (getStatistics collection) = 1"
    by (simp add: getStatistics_eq filter_status_length m)
  show "n_closed (getStatistics collection) = 1"
    by (simp add: getStatistics_eq filter_status_length m)
qed (rule getStatistics_eq)

theorem getStatistics_counts_witness:
  "map status sample_collection = [''open'', ''open'', ''in-progress'', ''resolved'', ''closed''] \<and>
   total (getStatistics sample_collection) = 5 \<and> n_open (getStatistics sample_collection) = 2 \<and>
   n_inProgress (getStatistics sample_collection) = 1 \<and>
   n_testing (getStatistics sample_collection) = 0 \<and>
   n_resolved (getStatistics sample_collection) = 1 \<and>
   n_closed (getStatistics sample_collection) = 1"
proof -
  have m: "map status sample_collection =
      [''open'', ''open'', ''in-progress'', ''resolved'', ''closed'']"
    by (simp add: sample_collection_def sample_bug_def)
  from getStatistics_counts [of sample_collection] m
  have "total (getStatistics sample_collection) = 5 \<and>
      n_open (getStatistics sample_collection) = 2 \<and>
      n_inProgress (getStatistics sample_collection) = 1 \<and>
      n_testing (getStatistics sample_collection) = 0 \<and>
      n_resolved (getStatistics sample_collection) = 1 \<and>
      n_closed (getStatistics sample_collection) = 1"
    by blast
  with m show ?thesis by simp
qed


section \<open>The schema as an invariant of the store\<close>

text \<open>
  The handlers keep every stored bug within the validators of the schema, which is what the
  statements above ask of the bug they start from.
\<close>

lemma valid_store_upd:
  "valid_store store \<Longrightarrow> validate doc \<Longrightarrow> valid_store (store(k \<mapsto> doc))"
  by (simp add: valid_store_def)

lemma valid_store_del: "valid_store store \<Longrightarrow> valid_store (store(k := None))"
  by (simp add: valid_store_def)

lemma validate_apply_updates:
  assumes "validate doc" and "validate_updates u"
  shows "validate (apply_updates u doc)"
  using assms
  by (auto simp: validate_def validate_updates_def split: option.splits)

lemma createBug_valid:
  "valid_store store \<Longrightarrow> valid_store (snd (createBug store newId now reqUser body))"
  by (auto simp: createBug_def Bug_create_def Let_def save_result valid_store_upd split: if_splits)

lemma updateBug_valid:
  assumes "valid_store store"
  shows "valid_store (snd (updateBug store now bugId body))"
proof -
  have "valid_store (snd (write_updates store now bugId (strip_updates body)))"
    using assms
    by (auto simp: write_updates_result validate_apply_updates valid_store_upd valid_store_def
        split: option.splits)
  then show ?thesis
    using updateBug_cases [of store now bugId body] assms by auto
qed

lemma deleteBug_valid:
  "valid_store store \<Longrightarrow> valid_store (snd (deleteBug store reqUser bugId))"
  by (auto simp: deleteBug_def valid_store_del split: option.splits)

lemma assignBug_valid:
  assumes "valid_store store"
  shows "valid_store (snd (assignBug users store now bugId assigneeId))"
proof -
  have "validate doc \<Longrightarrow> validate (doc\<lparr>assignee := a, updatedAt := now\<rparr>)" for doc a
    by (simp add: validate_def)
  then show ?thesis
    using assms
    by (auto simp: assignBug_def findByIdAndUpdate_assign valid_store_def split: option.splits)
qed

lemma addComment_valid:
  assumes "valid_store store"
  shows "valid_store (snd (addComment store now reqUser bugId body_content))"
  using assms
  by (auto simp: addComment_def save_result valid_store_upd split: option.splits if_splits)

lemma toggleWatcher_valid:
  assumes "valid_store store"
  shows "valid_store (snd (toggleWatcher store now reqUser bugId))"
  using assms
  by (auto simp: toggleWatcher_def Let_def save_result valid_store_upd
      split: option.splits if_splits)

end
